theory Spec2Isabelle
  imports Complex_Main
begin

section \<open>Values exchanged with the collaborators\<close>

text \<open>
  What \<^verbatim>\<open>json.loads\<close> can return.  The prompts ask for objects whose values are
  strings, so an object is an association list from keys to strings (looked up with
  \<open>map_of\<close>, as \<^verbatim>\<open>dict.get\<close> does); every other JSON value is kept because the
  scripts test the parsed value for truth and call \<^verbatim>\<open>.get\<close> on it.
\<close>

datatype json =
    JNull
  | JBool bool
  | JNum int
  | JStr string
  | JArr "json list"
  | JObj "(string \<times> string) list"

text \<open>Python's truth value of a parsed JSON value (\<^verbatim>\<open>if extracted_data:\<close>).\<close>

fun truthy :: "json \<Rightarrow> bool" where
  "truthy JNull = False"
| "truthy (JBool b) = b"
| "truthy (JNum n) = (n \<noteq> 0)"
| "truthy (JStr s) = (s \<noteq> [])"
| "truthy (JArr xs) = (xs \<noteq> [])"
| "truthy (JObj kv) = (kv \<noteq> [])"

datatype py_error = TypeError | AttributeError | IndexError | KeyError

text \<open>
  The three ways the body of a \<^verbatim>\<open>try: response = model.generate_content(prompt); ...;
  json.loads(cleaned_response)\<close> block can end: the call itself raises (network or
  configuration), the answer does not parse, or a JSON value comes back.
\<close>

datatype llm_outcome = CallFailed | Unparseable | Parsed json

text \<open>\<^verbatim>\<open>d.get(key, default)\<close> on a parsed object.\<close>

definition dict_get :: "(string \<times> string) list \<Rightarrow> string \<Rightarrow> string \<Rightarrow> string" where
  "dict_get kv k dflt = (case map_of kv k of Some v \<Rightarrow> v | None \<Rightarrow> dflt)"

section \<open>The relational store\<close>

record tweet =
  tw_id :: int
  tw_text :: string
  tw_status :: string

record actionable_tweet =
  source_tweet_id :: int
  at_original_tweet_text :: string

record incident_report =
  ir_id :: int
  original_tweet_id :: int
  extracted_location :: string
  extracted_issue :: string
  issue_time :: string
  original_tweet_text :: string
  ir_status :: string

record final_report_row =
  fr_id :: int
  event_summary :: string
  event_location :: string
  source_incident_ids :: "int list"
  number_of_reports :: int

record geocoded_tweet =
  source_report_id :: int
  latitude :: "real option"
  longitude :: "real option"
  gt_event_summary :: string
  gt_event_location :: string
  gt_number_of_reports :: int
  gt_status :: string

text \<open>
  The tables, rows in insertion order, and the two \<^verbatim>\<open>SERIAL\<close> sequences whose values
  other tables refer to.
\<close>

record store =
  tweets :: "tweet list"
  actionable_tweets :: "actionable_tweet list"
  incident_reports :: "incident_report list"
  incident_reports_seq :: int
  final_report :: "final_report_row list"
  final_report_seq :: int
  geocoded_tweets :: "geocoded_tweet list"

text \<open>
  A psycopg2 connection: the state the statements of the session have produced, and every
  state \<^verbatim>\<open>conn.commit()\<close> has made durable, oldest first.
\<close>

record conn =
  db :: store
  commits :: "store list"

definition commit :: "conn \<Rightarrow> conn" where
  "commit c = c\<lparr>commits := commits c @ [db c]\<rparr>"

definition execute :: "(store \<Rightarrow> store) \<Rightarrow> conn \<Rightarrow> conn" where
  "execute stmt c = c\<lparr>db := stmt (db c)\<rparr>"

section \<open>Dispatch workflow (api\_server\_new.py)\<close>

text \<open>
  A Flask view returns a JSON body and a status code, \<^verbatim>\<open>jsonify(...)\<close> alone being 200.
\<close>

datatype body =
    Success_new_status string
  | Success
  | Failure string

type_synonym response = "body \<times> nat"

text \<open>\<^verbatim>\<open>SELECT status FROM geocoded_tweets WHERE source_report_id = %s\<close>, then
  \<^verbatim>\<open>fetchone()\<close>.\<close>

definition select_status :: "store \<Rightarrow> int \<Rightarrow> string option" where
  "select_status s report_id =
     map_option gt_status (find (\<lambda>r. source_report_id r = report_id) (geocoded_tweets s))"

text \<open>\<^verbatim>\<open>UPDATE geocoded_tweets SET status = %s WHERE source_report_id = %s\<close>.\<close>

definition update_status :: "string \<Rightarrow> int \<Rightarrow> store \<Rightarrow> store" where
  "update_status new_status report_id s =
     s\<lparr>geocoded_tweets :=
         map (\<lambda>r. if source_report_id r = report_id then r\<lparr>gt_status := new_status\<rparr> else r)
           (geocoded_tweets s)\<rparr>"

text \<open>
  \<^verbatim>\<open>dispatch_incident\<close>.  The argument is what \<^verbatim>\<open>get_db_connection()\<close> returned.
  \<^verbatim>\<open>cur.fetchone()[0]\<close> on no row subscripts \<^verbatim>\<open>None\<close>: the TypeError leaves the view
  through the \<^verbatim>\<open>finally\<close>, before any statement has written.
\<close>

definition dispatch_incident :: "conn option \<Rightarrow> int \<Rightarrow> (py_error + response) \<times> conn option" where
  "dispatch_incident conn report_id =
     (case conn of
        None \<Rightarrow> (Inr (Failure ''Database connection failed'', 500), None)
      | Some c \<Rightarrow>
          (case select_status (db c) report_id of
             None \<Rightarrow> (Inl TypeError, Some c)
           | Some current_status \<Rightarrow>
               let new_status = (if current_status = ''dispatched'' then ''reported''
                                 else ''dispatched'');
                   c' = commit (execute (update_status new_status report_id) c)
               in (Inr (Success_new_status new_status, 200), Some c')))"

text \<open>\<^verbatim>\<open>complete_incident\<close>: one unconditional UPDATE, committed.\<close>

definition complete_incident :: "conn option \<Rightarrow> int \<Rightarrow> (py_error + response) \<times> conn option" where
  "complete_incident conn report_id =
     (case conn of
        None \<Rightarrow> (Inr (Failure ''Database connection failed'', 500), None)
      | Some c \<Rightarrow>
          (Inr (Success, 200),
           Some (commit (execute (update_status ''completed'' report_id) c))))"

text \<open>The store an action leaves behind, and the status a row has in it.\<close>

definition store_after :: "(py_error + response) \<times> conn option \<Rightarrow> store option" where
  "store_after r = map_option db (snd r)"

definition status_after :: "(py_error + response) \<times> conn option \<Rightarrow> int \<Rightarrow> string option" where
  "status_after r report_id =
     (case snd r of None \<Rightarrow> None | Some c \<Rightarrow> select_status (db c) report_id)"


text \<open>A store with no rows, and a connection to a store holding one geocoded event.\<close>

definition empty_store :: store where
  "empty_store =
     \<lparr>tweets = [], actionable_tweets = [], incident_reports = [], incident_reports_seq = 1,
      final_report = [], final_report_seq = 1, geocoded_tweets = []\<rparr>"

definition fresh_conn :: "store \<Rightarrow> conn" where
  "fresh_conn s = \<lparr>db = s, commits = []\<rparr>"

definition one_event_conn :: "string \<Rightarrow> conn" where
  "one_event_conn st =
     fresh_conn (empty_store\<lparr>geocoded_tweets :=
       [\<lparr>source_report_id = 1, latitude = Some 12.92, longitude = Some 79.13,
         gt_event_summary = ''Flooding reported'', gt_event_location = ''Gandhi Nagar'',
         gt_number_of_reports = 2, gt_status = st\<rparr>]\<rparr>)"

section \<open>Stage scripts: shared pieces\<close>

text \<open>How a batch loop ended: it ran through, or an exception that no handler catches
  left it (the \<^verbatim>\<open>finally\<close> closes the connection; what was committed stays).\<close>

datatype outcome = Completed | Aborted py_error

text \<open>
  The schema functions contain only guarded DDL (\<^verbatim>\<open>CREATE TABLE IF NOT EXISTS\<close>,
  \<^verbatim>\<open>ADD COLUMN\<close> under a \<^verbatim>\<open>duplicate_column\<close> handler).  With the schema in place they
  change no row and commit.
\<close>

definition setup_database_schema :: "conn \<Rightarrow> conn" where
  "setup_database_schema c = commit c"


text \<open>\<^verbatim>\<open>extract_incident_details\<close> (tweet\_processer\_1.py, tweet\_classify\_processer.py):
  the parsed value, or \<^verbatim>\<open>None\<close> after any exception.\<close>

definition extract_incident_details :: "(string \<Rightarrow> llm_outcome) \<Rightarrow> string \<Rightarrow> json option" where
  "extract_incident_details model tweet_text =
     (case model tweet_text of Parsed j \<Rightarrow> Some j | _ \<Rightarrow> None)"

text \<open>\<^verbatim>\<open>SELECT id, text FROM tweets WHERE status = 'unclassified'\<close>.\<close>

definition fetch_unclassified_tweets :: "conn \<Rightarrow> (int \<times> string) list" where
  "fetch_unclassified_tweets c =
     map (\<lambda>t. (tw_id t, tw_text t))
       (filter (\<lambda>t. tw_status t = ''unclassified'') (tweets (db c)))"

text \<open>\<^verbatim>\<open>INSERT INTO actionable_tweets ... ON CONFLICT (source_tweet_id) DO NOTHING\<close>.\<close>

definition sql_insert_actionable :: "string \<Rightarrow> int \<Rightarrow> store \<Rightarrow> store" where
  "sql_insert_actionable text_content source_id s =
     (if source_id \<in> source_tweet_id ` set (actionable_tweets s) then s
      else s\<lparr>actionable_tweets := actionable_tweets s @
              [\<lparr>source_tweet_id = source_id, at_original_tweet_text = text_content\<rparr>]\<rparr>)"

definition insert_actionable_tweet :: "conn \<Rightarrow> string \<Rightarrow> int \<Rightarrow> conn" where
  "insert_actionable_tweet c text_content source_id =
     commit (execute (sql_insert_actionable text_content source_id) c)"

text \<open>\<^verbatim>\<open>UPDATE tweets SET status = %s WHERE id = %s\<close>.\<close>

definition sql_update_tweet_status :: "int \<Rightarrow> string \<Rightarrow> store \<Rightarrow> store" where
  "sql_update_tweet_status tweet_id new_status s =
     s\<lparr>tweets := map (\<lambda>t. if tw_id t = tweet_id then t\<lparr>tw_status := new_status\<rparr> else t)
                    (tweets s)\<rparr>"

definition update_tweet_status :: "conn \<Rightarrow> int \<Rightarrow> string \<Rightarrow> conn" where
  "update_tweet_status c tweet_id new_status =
     commit (execute (sql_update_tweet_status tweet_id new_status) c)"

text \<open>The \<^verbatim>\<open>report\<close> dictionary built in the extractor loops.\<close>

record report_data =
  rd_original_tweet_id :: int
  rd_location :: string
  rd_issue :: string
  rd_time :: string
  rd_original_tweet_text :: string

text \<open>
  \<^verbatim>\<open>INSERT INTO incident_reports ... ON CONFLICT (original_tweet_id) DO NOTHING\<close>.  The new
  row takes its id from the sequence and the column default \<^verbatim>\<open>'unprocessed'\<close>.
\<close>

definition sql_insert_incident_report :: "report_data \<Rightarrow> store \<Rightarrow> store" where
  "sql_insert_incident_report rd s =
     (if rd_original_tweet_id rd \<in> original_tweet_id ` set (incident_reports s) then s
      else s\<lparr>incident_reports := incident_reports s @
              [\<lparr>ir_id = incident_reports_seq s,
                original_tweet_id = rd_original_tweet_id rd,
                extracted_location = rd_location rd,
                extracted_issue = rd_issue rd,
                issue_time = rd_time rd,
                original_tweet_text = rd_original_tweet_text rd,
                ir_status = ''unprocessed''\<rparr>],
             incident_reports_seq := incident_reports_seq s + 1\<rparr>)"

definition insert_incident_report :: "conn \<Rightarrow> report_data \<Rightarrow> conn" where
  "insert_incident_report c rd = commit (execute (sql_insert_incident_report rd) c)"

text \<open>The dictionary literal of the loops: each field read with the sentinel default.\<close>

definition build_report :: "int \<Rightarrow> string \<Rightarrow> (string \<times> string) list \<Rightarrow> report_data" where
  "build_report tweet_id tweet_text extracted_data =
     \<lparr>rd_original_tweet_id = tweet_id,
      rd_location = dict_get extracted_data ''location'' ''Extraction Failed'',
      rd_issue = dict_get extracted_data ''issue'' ''Extraction Failed'',
      rd_time = dict_get extracted_data ''time'' ''Extraction Failed'',
      rd_original_tweet_text = tweet_text\<rparr>"

section \<open>Classifier stage (tweet\_classify.py)\<close>



section \<open>Extractor stage (tweet\_processer\_1.py)\<close>

text \<open>The anti-join: tweets with no row in \<^verbatim>\<open>incident_reports\<close>.\<close>

definition fetch_unprocessed_tweets :: "conn \<Rightarrow> tweet list" where
  "fetch_unprocessed_tweets c =
     filter (\<lambda>t. tw_id t \<notin> original_tweet_id ` set (incident_reports (db c)))
       (tweets (db c))"

text \<open>
  One pass of the loop body.  \<^verbatim>\<open>if extracted_data:\<close> tests truth, so \<^verbatim>\<open>None\<close> and an
  empty object both go to the "failed" branch; a true value that is no object has no
  \<^verbatim>\<open>.get\<close>, and that AttributeError is outside every handler.
\<close>

fun process_tweets :: "(string \<Rightarrow> llm_outcome) \<Rightarrow> tweet list \<Rightarrow> conn \<Rightarrow> conn \<times> outcome" where
  "process_tweets model [] c = (c, Completed)"
| "process_tweets model (tweet # rest) c =
     (case extract_incident_details model (tw_text tweet) of
        None \<Rightarrow> process_tweets model rest c
      | Some extracted_data \<Rightarrow>
          if truthy extracted_data then
            (case extracted_data of
               JObj kv \<Rightarrow>
                 process_tweets model rest
                   (insert_incident_report c (build_report (tw_id tweet) (tw_text tweet) kv))
             | _ \<Rightarrow> (c, Aborted AttributeError))
          else process_tweets model rest c)"


section \<open>Combined extractor and classifier (tweet\_classify\_processer.py)\<close>



section \<open>Clustering stage (tweet\_grouper.py)\<close>

text \<open>\<^verbatim>\<open>SELECT ... FROM incident_reports WHERE status = 'unprocessed'\<close>.\<close>

definition fetch_unprocessed_incidents :: "conn \<Rightarrow> incident_report list" where
  "fetch_unprocessed_incidents c =
     filter (\<lambda>r. ir_status r = ''unprocessed'') (incident_reports (db c))"

text \<open>\<^verbatim>\<open>INSERT INTO final_report (...) VALUES (%s, %s, %s, %s)\<close>, the count being
  \<^verbatim>\<open>len(incident_ids)\<close>; a plain insert with no conflict clause.\<close>

definition sql_insert_final_report :: "string \<Rightarrow> string \<Rightarrow> int list \<Rightarrow> store \<Rightarrow> store" where
  "sql_insert_final_report summary location incident_ids s =
     s\<lparr>final_report := final_report s @
          [\<lparr>fr_id = final_report_seq s, event_summary = summary, event_location = location,
            source_incident_ids = incident_ids,
            number_of_reports = int (length incident_ids)\<rparr>],
       final_report_seq := final_report_seq s + 1\<rparr>"

definition insert_final_event_report :: "conn \<Rightarrow> string \<Rightarrow> string \<Rightarrow> int list \<Rightarrow> conn" where
  "insert_final_event_report c summary location incident_ids =
     commit (execute (sql_insert_final_report summary location incident_ids) c)"

text \<open>\<^verbatim>\<open>UPDATE incident_reports SET status = 'grouped' WHERE id IN %s\<close>.\<close>

definition sql_update_incident_status :: "int list \<Rightarrow> store \<Rightarrow> store" where
  "sql_update_incident_status incident_ids s =
     s\<lparr>incident_reports :=
         map (\<lambda>r. if ir_id r \<in> set incident_ids then r\<lparr>ir_status := ''grouped''\<rparr> else r)
           (incident_reports s)\<rparr>"

definition update_incident_status :: "conn \<Rightarrow> int list \<Rightarrow> conn" where
  "update_incident_status c incident_ids =
     commit (execute (sql_update_incident_status incident_ids) c)"

text \<open>\<^verbatim>\<open>sep.join(xs)\<close>.\<close>

fun join :: "string \<Rightarrow> string list \<Rightarrow> string" where
  "join sep [] = []"
| "join sep [x] = x"
| "join sep (x # y # ys) = x @ sep @ join sep (y # ys)"

record summary_data =
  sd_summary :: string
  sd_location :: string

text \<open>
  \<^verbatim>\<open>summarize_cluster\<close>.  \<open>model\<close> is the collaborator as a function of the report list
  put into the prompt.  The \<^verbatim>\<open>try\<close> covers the call, the parse and both
  \<^verbatim>\<open>result.get\<close>, so a parsed value without \<^verbatim>\<open>.get\<close> also ends in the handler.
\<close>

definition summarize_cluster :: "(string \<Rightarrow> llm_outcome) \<Rightarrow> string list \<Rightarrow> summary_data" where
  "summarize_cluster model incident_texts =
     (let text_blob = join (CHR 0x0A # ''- '') incident_texts
      in case model text_blob of
           Parsed (JObj result) \<Rightarrow>
             \<lparr>sd_summary = dict_get result ''summary'' ''Could not generate summary.'',
              sd_location = dict_get result ''location'' ''Not specified''\<rparr>
         | _ \<Rightarrow> \<lparr>sd_summary = ''Could not generate summary.'', sd_location = ''Error''\<rparr>)"

text \<open>\<^verbatim>\<open>[i for i, l in enumerate(labels) if l == label]\<close>.\<close>

definition cluster_indices :: "int list \<Rightarrow> int \<Rightarrow> nat list" where
  "cluster_indices labels label = filter (\<lambda>i. labels ! i = label) [0..<length labels]"

text \<open>\<^verbatim>\<open>[incidents[i] for i in cluster_indices]\<close>; an index past the end raises.\<close>

definition index_incidents :: "incident_report list \<Rightarrow> nat list \<Rightarrow> incident_report list option" where
  "index_incidents incidents idxs =
     (if \<forall>i \<in> set idxs. i < length incidents then Some (map (\<lambda>i. incidents ! i) idxs)
      else None)"

text \<open>
  The loop \<^verbatim>\<open>for label in unique_labels\<close>.  The third list is the order in which the
  set \<^verbatim>\<open>set(labels)\<close> is iterated.
\<close>

fun process_labels ::
  "(string \<Rightarrow> llm_outcome) \<Rightarrow> incident_report list \<Rightarrow> int list \<Rightarrow> int list \<Rightarrow> conn
     \<Rightarrow> conn \<times> outcome" where
  "process_labels model incidents labels [] c = (c, Completed)"
| "process_labels model incidents labels (label # rest) c =
     (if label = - 1 then process_labels model incidents labels rest c
      else
        (case index_incidents incidents (cluster_indices labels label) of
           None \<Rightarrow> (c, Aborted IndexError)
         | Some cluster_incidents \<Rightarrow>
             let incident_ids_in_cluster = map ir_id cluster_incidents;
                 incident_texts_in_cluster = map original_tweet_text cluster_incidents;
                 summary_data = summarize_cluster model incident_texts_in_cluster;
                 c1 = insert_final_event_report c (sd_summary summary_data)
                        (sd_location summary_data) incident_ids_in_cluster;
                 c2 = update_incident_status c1 incident_ids_in_cluster
             in process_labels model incidents labels rest c2))"

text \<open>The composite text keys, \<^verbatim>\<open>f"{location}: {issue}"\<close> per report.\<close>

definition texts_for_embedding :: "incident_report list \<Rightarrow> string list" where
  "texts_for_embedding incidents =
     map (\<lambda>inc. extracted_location inc @ '': '' @ extracted_issue inc) incidents"

text \<open>
  The main block.  \<open>get_embeddings\<close> is the embedding collaborator (\<^verbatim>\<open>None\<close> after an
  exception), \<open>dbscan\<close> is \<^verbatim>\<open>DBSCAN(eps=0.5, min_samples=2, metric='cosine').fit(...).labels_\<close>
  and \<open>set_order\<close> enumerates \<^verbatim>\<open>set(labels)\<close>; the three are library and service code,
  taken as parameters.
\<close>

definition tweet_grouper_main ::
  "(string list \<Rightarrow> 'e option) \<Rightarrow> ('e \<Rightarrow> int list) \<Rightarrow> (int list \<Rightarrow> int list)
     \<Rightarrow> (string \<Rightarrow> llm_outcome) \<Rightarrow> conn \<Rightarrow> conn \<times> outcome" where
  "tweet_grouper_main get_embeddings dbscan set_order model db_connection =
     (let c = setup_database_schema db_connection;
          incidents = fetch_unprocessed_incidents c
      in if incidents = [] then (c, Completed)
         else
           case get_embeddings (texts_for_embedding incidents) of
                None \<Rightarrow> (c, Completed)
              | Some embeddings \<Rightarrow>
                  let labels = dbscan embeddings
                  in process_labels model incidents labels (set_order labels) c)"

section \<open>Geocoding stage (tweet\_geocoder\_new.py)\<close>

text \<open>
  What the geocoding request can do: a first result with coordinates, an empty result
  list, a \<^verbatim>\<open>RequestException\<close>, or a payload without the expected keys (a KeyError,
  which \<^verbatim>\<open>get_coordinates\<close> does not catch).
\<close>

datatype geo_outcome = Located real real | NoResults | RequestException | BadPayload

definition get_coordinates ::
  "bool \<Rightarrow> (string \<Rightarrow> geo_outcome) \<Rightarrow> string \<Rightarrow> py_error + (real \<times> real) option" where
  "get_coordinates api_key_set geocoder place_name =
     (if \<not> api_key_set then Inr None
      else case geocoder place_name of
             Located lat lon \<Rightarrow> Inr (Some (lat, lon))
           | NoResults \<Rightarrow> Inr None
           | RequestException \<Rightarrow> Inr None
           | BadPayload \<Rightarrow> Inl KeyError)"

text \<open>The anti-join: final reports with no row in \<^verbatim>\<open>geocoded_tweets\<close>.\<close>

definition fetch_unprocessed_reports :: "conn \<Rightarrow> final_report_row list" where
  "fetch_unprocessed_reports c =
     filter (\<lambda>fr. fr_id fr \<notin> source_report_id ` set (geocoded_tweets (db c)))
       (final_report (db c))"

text \<open>\<^verbatim>\<open>INSERT INTO geocoded_tweets ... ON CONFLICT (source_report_id) DO NOTHING\<close>; the
  status column takes its default \<^verbatim>\<open>'reported'\<close>.\<close>

definition sql_insert_geocoded :: "final_report_row \<Rightarrow> real \<Rightarrow> real \<Rightarrow> store \<Rightarrow> store" where
  "sql_insert_geocoded report lat lon s =
     (if fr_id report \<in> source_report_id ` set (geocoded_tweets s) then s
      else s\<lparr>geocoded_tweets := geocoded_tweets s @
              [\<lparr>source_report_id = fr_id report, latitude = Some lat, longitude = Some lon,
                gt_event_summary = event_summary report,
                gt_event_location = event_location report,
                gt_number_of_reports = number_of_reports report,
                gt_status = ''reported''\<rparr>]\<rparr>)"

definition insert_geocoded_report :: "conn \<Rightarrow> final_report_row \<Rightarrow> real \<Rightarrow> real \<Rightarrow> conn" where
  "insert_geocoded_report c report lat lon =
     commit (execute (sql_insert_geocoded report lat lon) c)"

text \<open>The loop; an exception leaves it for the \<^verbatim>\<open>except Exception\<close> around the whole
  main block.\<close>

fun geocode_reports ::
  "bool \<Rightarrow> (string \<Rightarrow> geo_outcome) \<Rightarrow> final_report_row list \<Rightarrow> conn \<Rightarrow> conn \<times> outcome" where
  "geocode_reports api_key_set geocoder [] c = (c, Completed)"
| "geocode_reports api_key_set geocoder (report # rest) c =
     (let location_name = event_location report;
          search_query = location_name @ '', Vellore''
      in case get_coordinates api_key_set geocoder search_query of
           Inl e \<Rightarrow> (c, Aborted e)
         | Inr None \<Rightarrow> geocode_reports api_key_set geocoder rest c
         | Inr (Some (lat, lon)) \<Rightarrow>
             geocode_reports api_key_set geocoder rest (insert_geocoded_report c report lat lon))"


section \<open>Notions for the statements, and example stores\<close>

text \<open>The ids a cluster lists, and the labels the loop gets through before an abort.\<close>

definition members :: "incident_report list \<Rightarrow> int list \<Rightarrow> int \<Rightarrow> int list" where
  "members incidents labels label =
     map (\<lambda>i. ir_id (incidents ! i)) (cluster_indices labels label)"

fun processed_labels :: "incident_report list \<Rightarrow> int list \<Rightarrow> int list \<Rightarrow> int list" where
  "processed_labels incidents labels [] = []"
| "processed_labels incidents labels (label # rest) =
     (if label = - 1 then processed_labels incidents labels rest
      else if index_incidents incidents (cluster_indices labels label) = None then []
      else label # processed_labels incidents labels rest)"

definition mark_grouped :: "int set \<Rightarrow> incident_report list \<Rightarrow> incident_report list" where
  "mark_grouped G rows = map (\<lambda>r. if ir_id r \<in> G then r\<lparr>ir_status := ''grouped''\<rparr> else r) rows"

definition new_events :: "store \<Rightarrow> store \<Rightarrow> final_report_row list" where
  "new_events s s' = drop (length (final_report s)) (final_report s')"

text \<open>The scenario of three reports, two of them about the same place.\<close>

definition three_reports :: "incident_report list" where
  "three_reports =
     [\<lparr>ir_id = 1, original_tweet_id = 101, extracted_location = ''Gandhi Nagar'',
       extracted_issue = ''flooding'', issue_time = ''Now'',
       original_tweet_text = ''Water entering houses in Gandhi Nagar'',
       ir_status = ''unprocessed''\<rparr>,
      \<lparr>ir_id = 2, original_tweet_id = 102, extracted_location = ''Gandhi Nagar'',
       extracted_issue = ''water rising'', issue_time = ''Now'',
       original_tweet_text = ''Gandhi Nagar street is underwater'',
       ir_status = ''unprocessed''\<rparr>,
      \<lparr>ir_id = 3, original_tweet_id = 103, extracted_location = ''Katpadi Road'',
       extracted_issue = ''tree fallen'', issue_time = ''Not specified'',
       original_tweet_text = ''Tree fallen on Katpadi Road'',
       ir_status = ''unprocessed''\<rparr>]"

definition three_reports_conn :: conn where
  "three_reports_conn =
     fresh_conn (empty_store\<lparr>incident_reports := three_reports, incident_reports_seq := 4\<rparr>)"

text \<open>A run over the three reports: the first two in cluster 0, the third noise, the
  summarizer answering with text that does not parse.\<close>

definition three_reports_run :: conn where
  "three_reports_run =
     fst (tweet_grouper_main (\<lambda>_. Some ()) (\<lambda>_. [0, 0, - 1]) remdups (\<lambda>_. Unparseable)
            three_reports_conn)"


text \<open>The answers after which the loop writes a row: a non-empty object.\<close>

definition writes_row :: "(string \<Rightarrow> llm_outcome) \<Rightarrow> tweet \<Rightarrow> bool" where
  "writes_row model t \<longleftrightarrow> (\<exists>kv. model (tw_text t) = Parsed (JObj kv) \<and> kv \<noteq> [])"


text \<open>Two tweets waiting for every stage, and an extractor that answers the first with an
  object holding only a location and the second with text that does not parse.\<close>

definition tweet_one :: tweet where
  "tweet_one = \<lparr>tw_id = 1, tw_text = ''Water entering houses in Gandhi Nagar'',
                 tw_status = ''unclassified''\<rparr>"

definition tweet_two :: tweet where
  "tweet_two = \<lparr>tw_id = 2, tw_text = ''Tree fallen on Katpadi Road'',
                 tw_status = ''unclassified''\<rparr>"

definition two_tweets_conn :: conn where
  "two_tweets_conn = fresh_conn (empty_store\<lparr>tweets := [tweet_one, tweet_two]\<rparr>)"

definition location_only :: "string \<Rightarrow> llm_outcome" where
  "location_only txt =
     (if txt = tw_text tweet_one then Parsed (JObj [(''location'', ''Gandhi Nagar'')])
      else Unparseable)"

text \<open>The tweets table after the status of the ids in \<open>S\<close> has been set.\<close>

definition mark_status :: "int set \<Rightarrow> string \<Rightarrow> tweet list \<Rightarrow> tweet list" where
  "mark_status S st ts = map (\<lambda>t. if tw_id t \<in> S then t\<lparr>tw_status := st\<rparr> else t) ts"

text \<open>A store holding work for every stage: two tweets, the three reports and one Event.\<close>

definition pipeline_conn :: conn where
  "pipeline_conn =
     fresh_conn (empty_store\<lparr>tweets := [tweet_one, tweet_two],
       incident_reports := three_reports, incident_reports_seq := 4,
       final_report := [\<lparr>fr_id = 1, event_summary = ''Road blocked by a fallen tree'',
                          event_location = ''Viruthampet'', source_incident_ids = [7, 8],
                          number_of_reports = 2\<rparr>],
       final_report_seq := 2\<rparr>)"

section \<open>Connections\<close>

lemma db_commit [simp]: "db (commit c) = db c"
  by (simp add: commit_def)

lemma db_execute [simp]: "db (execute stmt c) = stmt (db c)"
  by (simp add: execute_def)

lemma commits_commit [simp]: "commits (commit c) = commits c @ [db c]"
  by (simp add: commit_def)

lemma commits_execute [simp]: "commits (execute stmt c) = commits c"
  by (simp add: execute_def)

lemma find_update_status:
  "find (\<lambda>r. source_report_id r = rid) xs = Some x \<Longrightarrow>
   find (\<lambda>r. source_report_id r = rid)
     (map (\<lambda>r. if source_report_id r = rid then r\<lparr>gt_status := new\<rparr> else r) xs)
   = Some (x\<lparr>gt_status := new\<rparr>)"
  by (induction xs) (auto split: if_splits)

lemma find_update_status_None:
  "find (\<lambda>r. source_report_id r = rid) xs = None \<Longrightarrow>
   map (\<lambda>r. if source_report_id r = rid then r\<lparr>gt_status := new\<rparr> else r) xs = xs"
  by (induction xs) (auto split: if_splits)

lemma select_status_update:
  "select_status s rid = Some st \<Longrightarrow> select_status (update_status new rid s) rid = Some new"
  by (auto simp: select_status_def update_status_def find_update_status)

lemma update_status_absent:
  "select_status s rid = None \<Longrightarrow> update_status new rid s = s"
  by (simp add: select_status_def update_status_def find_update_status_None)

section \<open>Dispatch workflow\<close>

lemma status_after_dispatch:
  "select_status (db c) rid = Some st \<Longrightarrow>
   status_after (dispatch_incident (Some c) rid) rid =
     Some (if st = ''dispatched'' then ''reported'' else ''dispatched'')"
  by (simp add: status_after_def dispatch_incident_def Let_def select_status_update)

lemma snd_dispatch:
  "select_status (db c) rid = Some st \<Longrightarrow>
   snd (dispatch_incident (Some c) rid) =
     Some (commit (execute (update_status (if st = ''dispatched'' then ''reported''
                                           else ''dispatched'') rid) c))"
  by (simp add: dispatch_incident_def Let_def)

lemma fst_dispatch:
  "select_status (db c) rid = Some st \<Longrightarrow>
   fst (dispatch_incident (Some c) rid) =
     Inr (Success_new_status (if st = ''dispatched'' then ''reported'' else ''dispatched''), 200)"
  by (simp add: dispatch_incident_def Let_def)

lemma status_after_complete:
  "select_status (db c) rid = Some st \<Longrightarrow>
   status_after (complete_incident (Some c) rid) rid = Some ''completed''"
  by (simp add: status_after_def complete_incident_def select_status_update)

lemma snd_complete:
  "snd (complete_incident (Some c) rid) =
     Some (commit (execute (update_status ''completed'' rid) c))"
  by (simp add: complete_incident_def)

lemma dispatch_missing_raises:
  "select_status (db c) rid = None \<Longrightarrow> dispatch_incident (Some c) rid = (Inl TypeError, Some c)"
  by (simp add: dispatch_incident_def)

text \<open>
  C1 (amended).  From a row with status "reported", one dispatch action gives
  "dispatched" and a second one on the same id gives "reported" again; a complete action
  from either state gives "completed".  A dispatch action on a "completed" row is not
  rejected: it succeeds and moves the row to "dispatched", as it does from every status
  other than "dispatched".
\<close>

theorem dispatch_state_machine:
  assumes "select_status (db c) rid = Some ''reported''"
  shows "status_after (dispatch_incident (Some c) rid) rid = Some ''dispatched'' \<and>
         status_after (dispatch_incident (snd (dispatch_incident (Some c) rid)) rid) rid
           = Some ''reported'' \<and>
         status_after (complete_incident (Some c) rid) rid = Some ''completed'' \<and>
         status_after (complete_incident (snd (dispatch_incident (Some c) rid)) rid) rid
           = Some ''completed'' \<and>
         fst (dispatch_incident (snd (complete_incident (Some c) rid)) rid)
           = Inr (Success_new_status ''dispatched'', 200) \<and>
         status_after (dispatch_incident (snd (complete_incident (Some c) rid)) rid) rid
           = Some ''dispatched''"
proof -
  let ?c1 = "commit (execute (update_status ''dispatched'' rid) c)"
  let ?c2 = "commit (execute (update_status ''completed'' rid) c)"
  have s1: "snd (dispatch_incident (Some c) rid) = Some ?c1"
    using snd_dispatch [OF assms] by simp
  have d1: "select_status (db ?c1) rid = Some ''dispatched''"
    using select_status_update [OF assms] by simp
  have d2: "select_status (db ?c2) rid = Some ''completed''"
    using select_status_update [OF assms] by simp
  have a: "status_after (dispatch_incident (Some c) rid) rid = Some ''dispatched''"
    using status_after_dispatch [OF assms] by simp
  have b: "status_after (dispatch_incident (Some ?c1) rid) rid = Some ''reported''"
    using status_after_dispatch [OF d1] by simp
  have e: "status_after (complete_incident (Some ?c1) rid) rid = Some ''completed''"
    using status_after_complete [OF d1] .
  have f: "fst (dispatch_incident (Some ?c2) rid) = Inr (Success_new_status ''dispatched'', 200)"
    using fst_dispatch [OF d2] by simp
  have g: "status_after (dispatch_incident (Some ?c2) rid) rid = Some ''dispatched''"
    using status_after_dispatch [OF d2] by simp
  show ?thesis
    using a b e f g status_after_complete [OF assms] by (simp add: s1 snd_complete)
qed

lemma one_event_status [simp]: "select_status (db (one_event_conn st)) 1 = Some st"
  by (simp add: one_event_conn_def fresh_conn_def empty_store_def select_status_def)

theorem dispatch_state_machine_witness:
  "select_status (db (one_event_conn ''reported'')) 1 = Some ''reported'' \<and>
   status_after (dispatch_incident (Some (one_event_conn ''reported'')) 1) 1
     = Some ''dispatched'' \<and>
   status_after (dispatch_incident
       (snd (dispatch_incident (Some (one_event_conn ''reported'')) 1)) 1) 1
     = Some ''reported'' \<and>
   status_after (dispatch_incident
       (snd (complete_incident (Some (one_event_conn ''reported'')) 1)) 1) 1
     = Some ''dispatched''"
proof -
  have h: "select_status (db (one_event_conn ''reported'')) 1 = Some ''reported''"
    by simp
  show ?thesis
    using dispatch_state_machine [OF h] h by simp
qed

theorem dispatch_on_completed_counterexample:
  "select_status (db (one_event_conn ''completed'')) 1 = Some ''completed'' \<and>
   fst (dispatch_incident (Some (one_event_conn ''completed'')) 1)
     = Inr (Success_new_status ''dispatched'', 200) \<and>
   status_after (dispatch_incident (Some (one_event_conn ''completed'')) 1) 1
     = Some ''dispatched''"
  using fst_dispatch [of "one_event_conn ''completed''" 1 "''completed''"]
        status_after_dispatch [of "one_event_conn ''completed''" 1 "''completed''"]
  by simp

text \<open>
  C8 (amended).  A dispatch or complete action on an id that has no row changes nothing in
  the store.  The complete action does not fail: it answers success with status 200.
\<close>

theorem missing_id_no_state_change:
  assumes "select_status (db c) rid = None"
  shows "store_after (dispatch_incident (Some c) rid) = Some (db c) \<and>
         store_after (complete_incident (Some c) rid) = Some (db c) \<and>
         fst (complete_incident (Some c) rid) = Inr (Success, 200)"
  using assms
  by (simp add: store_after_def dispatch_missing_raises complete_incident_def
        update_status_absent)

lemma empty_store_no_row [simp]: "select_status (db (fresh_conn empty_store)) rid = None"
  by (simp add: fresh_conn_def empty_store_def select_status_def)

theorem missing_id_no_state_change_witness:
  "select_status (db (fresh_conn empty_store)) 7 = None \<and>
   store_after (dispatch_incident (Some (fresh_conn empty_store)) 7) = Some empty_store \<and>
   store_after (complete_incident (Some (fresh_conn empty_store)) 7) = Some empty_store"
proof -
  have h: "select_status (db (fresh_conn empty_store)) 7 = None"
    by simp
  show ?thesis
    using missing_id_no_state_change [OF h] h by (simp add: fresh_conn_def)
qed

theorem missing_id_not_found_counterexample:
  "select_status (db (fresh_conn empty_store)) 7 = None \<and>
   fst (complete_incident (Some (fresh_conn empty_store)) 7) = Inr (Success, 200) \<and>
   fst (dispatch_incident (Some (fresh_conn empty_store)) 7) = Inl TypeError"
  by (simp add: complete_incident_def dispatch_missing_raises)

section \<open>Clustering stage: the loop and the summarizer\<close>

lemma db_insert_final [simp]:
  "db (insert_final_event_report c sm loc ids) = sql_insert_final_report sm loc ids (db c)"
  by (simp add: insert_final_event_report_def)

lemma db_update_incident [simp]:
  "db (update_incident_status c ids) = sql_update_incident_status ids (db c)"
  by (simp add: update_incident_status_def)

lemma commits_insert_final [simp]:
  "commits (insert_final_event_report c sm loc ids) =
     commits c @ [sql_insert_final_report sm loc ids (db c)]"
  by (simp add: insert_final_event_report_def)

lemma commits_update_incident [simp]:
  "commits (update_incident_status c ids) =
     commits c @ [sql_update_incident_status ids (db c)]"
  by (simp add: update_incident_status_def)

lemma mark_grouped_twice: "mark_grouped G (mark_grouped H rows) = mark_grouped (H \<union> G) rows"
  by (induction rows) (auto simp: mark_grouped_def)

lemma mark_grouped_empty [simp]: "mark_grouped {} rows = rows"
  by (simp add: mark_grouped_def)

lemma index_incidents_ids:
  "index_incidents incidents (cluster_indices labels label) = Some ci \<Longrightarrow>
   map ir_id ci = members incidents labels label"
  by (auto simp: index_incidents_def members_def split: if_splits)

lemma process_labels_incident_reports:
  "incident_reports (db (fst (process_labels model incidents labels order c))) =
     mark_grouped (\<Union>l \<in> set (processed_labels incidents labels order).
                     set (members incidents labels l))
       (incident_reports (db c))"
proof (induction order arbitrary: c)
  case Nil
  then show ?case by simp
next
  case (Cons label rest)
  show ?case
  proof (cases "label = - 1")
    case True
    then show ?thesis using Cons.IH by simp
  next
    case False
    show ?thesis
    proof (cases "index_incidents incidents (cluster_indices labels label)")
      case None
      then show ?thesis using False by simp
    next
      case (Some ci)
      have ids: "map ir_id ci = members incidents labels label"
        using index_incidents_ids [OF Some] .
      show ?thesis
        using False Some
        by (simp add: Let_def Cons.IH ids sql_update_incident_status_def
              sql_insert_final_report_def mark_grouped_twice
              mark_grouped_def [of "set (members incidents labels label)", symmetric])
    qed
  qed
qed

lemma process_labels_final_report:
  "\<exists>rows. final_report (db (fst (process_labels model incidents labels order c))) =
            final_report (db c) @ rows \<and>
          map source_incident_ids rows =
            map (members incidents labels) (processed_labels incidents labels order) \<and>
          (\<forall>r \<in> set rows. number_of_reports r = int (length (source_incident_ids r)))"
proof (induction order arbitrary: c)
  case Nil
  then show ?case by simp
next
  case (Cons label rest)
  show ?case
  proof (cases "label = - 1")
    case True
    then show ?thesis using Cons.IH by simp
  next
    case False
    show ?thesis
    proof (cases "index_incidents incidents (cluster_indices labels label)")
      case None
      then show ?thesis using False by simp
    next
      case (Some ci)
      have ids: "map ir_id ci = members incidents labels label"
        using index_incidents_ids [OF Some] .
      let ?sd = "summarize_cluster model (map original_tweet_text ci)"
      let ?c2 = "update_incident_status
                   (insert_final_event_report c (sd_summary ?sd) (sd_location ?sd)
                      (members incidents labels label))
                   (members incidents labels label)"
      obtain rows where
        r1: "final_report (db (fst (process_labels model incidents labels rest ?c2))) =
               final_report (db ?c2) @ rows"
        and r2: "map source_incident_ids rows =
               map (members incidents labels) (processed_labels incidents labels rest)"
        and r3: "\<forall>r \<in> set rows. number_of_reports r = int (length (source_incident_ids r))"
        using Cons.IH [of ?c2] by blast
      let ?row = "\<lparr>fr_id = final_report_seq (db c), event_summary = sd_summary ?sd,
                   event_location = sd_location ?sd,
                   source_incident_ids = members incidents labels label,
                   number_of_reports = int (length (members incidents labels label))\<rparr>"
      have fr2: "final_report (db ?c2) = final_report (db c) @ [?row]"
        by (simp add: sql_update_incident_status_def sql_insert_final_report_def)
      have step: "process_labels model incidents labels (label # rest) c =
                  process_labels model incidents labels rest ?c2"
        using False Some by (simp add: Let_def ids)
      have "final_report (db (fst (process_labels model incidents labels (label # rest) c))) =
              final_report (db c) @ (?row # rows)"
        by (simp add: step r1 sql_update_incident_status_def sql_insert_final_report_def
              del: process_labels.simps)
      moreover have "map source_incident_ids (?row # rows) =
              map (members incidents labels) (processed_labels incidents labels (label # rest))"
        using False Some r2 by simp
      moreover have "\<forall>r \<in> set (?row # rows).
              number_of_reports r = int (length (source_incident_ids r))"
        using r3 by simp
      ultimately show ?thesis by blast
    qed
  qed
qed





section \<open>Clustering stage: what a run writes\<close>

lemma fetch_unprocessed_incidents_setup [simp]:
  "fetch_unprocessed_incidents (setup_database_schema c) = fetch_unprocessed_incidents c"
  by (simp add: fetch_unprocessed_incidents_def setup_database_schema_def)

lemma db_setup [simp]: "db (setup_database_schema c) = db c"
  by (simp add: setup_database_schema_def)

lemma processed_labels_subset:
  "l \<in> set (processed_labels incidents labels order) \<Longrightarrow>
   l \<in> set order \<and> l \<noteq> - 1 \<and> index_incidents incidents (cluster_indices labels l) \<noteq> None"
  by (induction order) (auto split: if_splits)


lemma members_index:
  assumes "m \<in> set (members incidents labels l)"
    and "index_incidents incidents (cluster_indices labels l) \<noteq> None"
  shows "\<exists>j. j < length labels \<and> j < length incidents \<and> labels ! j = l \<and>
             m = ir_id (incidents ! j)"
  using assms
  by (auto simp: members_def cluster_indices_def index_incidents_def split: if_splits)

lemma index_members:
  assumes "j < length labels" and "labels ! j = l"
  shows "ir_id (incidents ! j) \<in> set (members incidents labels l)"
  using assms by (auto simp: members_def cluster_indices_def)


lemma distinct_ids_nth:
  "distinct (map ir_id incidents) \<Longrightarrow> i < length incidents \<Longrightarrow> j < length incidents \<Longrightarrow>
   ir_id (incidents ! i) = ir_id (incidents ! j) \<Longrightarrow> i = j"
  by (metis distinct_conv_nth length_map nth_map)

lemma fetch_unprocessed_distinct:
  "distinct (map ir_id (incident_reports (db c))) \<Longrightarrow>
   distinct (map ir_id (fetch_unprocessed_incidents c))"
  by (simp add: fetch_unprocessed_incidents_def distinct_map_filter)

text \<open>The ids the run marks: members of processed clusters, none of them a noise index.\<close>

lemma grouped_ids_not_noise:
  assumes d: "distinct (map ir_id incidents)"
    and i: "i < length incidents" "i < length labels" "labels ! i = - 1"
    and l: "l \<in> set (processed_labels incidents labels order)"
  shows "ir_id (incidents ! i) \<notin> set (members incidents labels l)"
proof
  assume m: "ir_id (incidents ! i) \<in> set (members incidents labels l)"
  have pl: "l \<noteq> - 1" "index_incidents incidents (cluster_indices labels l) \<noteq> None"
    using processed_labels_subset [OF l] by simp_all
  obtain j where j: "j < length labels" "j < length incidents" "labels ! j = l"
      "ir_id (incidents ! i) = ir_id (incidents ! j)"
    using members_index [OF m pl(2)] by blast
  have "i = j" using distinct_ids_nth [OF d i(1) j(2) j(4)] .
  then show False using i(3) j(3) pl(1) by simp
qed

lemma mark_grouped_unchanged:
  "r \<in> set rows \<Longrightarrow> ir_id r \<notin> G \<Longrightarrow> r \<in> set (mark_grouped G rows)"
  by (force simp: mark_grouped_def)

lemma mark_grouped_cases:
  "r \<in> set rows \<Longrightarrow>
   (ir_id r \<notin> G \<and> r \<in> set (mark_grouped G rows)) \<or>
   (ir_id r \<in> G \<and> r\<lparr>ir_status := ''grouped''\<rparr> \<in> set (mark_grouped G rows))"
  by (force simp: mark_grouped_def)


lemma mark_grouped_ids [simp]: "map ir_id (mark_grouped G rows) = map ir_id rows"
  by (induction rows) (auto simp: mark_grouped_def)

lemma new_events_process_labels:
  "map source_incident_ids
     (new_events (db c) (db (fst (process_labels model incidents labels order c)))) =
   map (members incidents labels) (processed_labels incidents labels order) \<and>
   (\<forall>r \<in> set (new_events (db c) (db (fst (process_labels model incidents labels order c)))).
      number_of_reports r = int (length (source_incident_ids r)))"
  using process_labels_final_report [of model incidents labels order c]
  by (auto simp: new_events_def)

text \<open>The main block, by the branch it takes.\<close>

lemma grouper_main_clusters:
  assumes "fetch_unprocessed_incidents c \<noteq> []"
    and "get_embeddings (texts_for_embedding (fetch_unprocessed_incidents c)) = Some e"
  shows "tweet_grouper_main get_embeddings dbscan set_order model c =
         process_labels model (fetch_unprocessed_incidents c) (dbscan e) (set_order (dbscan e))
           (setup_database_schema c)"
  using assms by (simp add: tweet_grouper_main_def Let_def texts_for_embedding_def)

lemma grouper_main_nothing:
  assumes "fetch_unprocessed_incidents c = [] \<or>
           get_embeddings (texts_for_embedding (fetch_unprocessed_incidents c)) = None"
  shows "tweet_grouper_main get_embeddings dbscan set_order model c =
         (setup_database_schema c, Completed)"
  using assms by (auto simp: tweet_grouper_main_def Let_def texts_for_embedding_def)

lemma grouper_main_rows:
  assumes ne: "fetch_unprocessed_incidents c \<noteq> []"
    and emb: "get_embeddings (texts_for_embedding (fetch_unprocessed_incidents c)) = Some e"
  shows "incident_reports (db (fst (tweet_grouper_main get_embeddings dbscan set_order model c))) =
           mark_grouped (\<Union>l \<in> set (processed_labels (fetch_unprocessed_incidents c) (dbscan e)
                                          (set_order (dbscan e))).
                           set (members (fetch_unprocessed_incidents c) (dbscan e) l))
             (incident_reports (db c))"
    and "map source_incident_ids
           (new_events (db c)
              (db (fst (tweet_grouper_main get_embeddings dbscan set_order model c)))) =
         map (members (fetch_unprocessed_incidents c) (dbscan e))
           (processed_labels (fetch_unprocessed_incidents c) (dbscan e) (set_order (dbscan e)))"
    and "\<forall>r \<in> set (new_events (db c)
              (db (fst (tweet_grouper_main get_embeddings dbscan set_order model c)))).
           number_of_reports r = int (length (source_incident_ids r))"
proof -
  let ?c0 = "setup_database_schema c"
  have m: "tweet_grouper_main get_embeddings dbscan set_order model c =
           process_labels model (fetch_unprocessed_incidents c) (dbscan e) (set_order (dbscan e)) ?c0"
    using ne emb by (rule grouper_main_clusters)
  show "incident_reports (db (fst (tweet_grouper_main get_embeddings dbscan set_order model c))) =
           mark_grouped (\<Union>l \<in> set (processed_labels (fetch_unprocessed_incidents c) (dbscan e)
                                          (set_order (dbscan e))).
                           set (members (fetch_unprocessed_incidents c) (dbscan e) l))
             (incident_reports (db c))"
    using process_labels_incident_reports [of model "fetch_unprocessed_incidents c" "dbscan e"
        "set_order (dbscan e)" ?c0]
    by (simp add: m)
  have ne': "new_events (db c) = new_events (db ?c0)" by simp
  show "map source_incident_ids
           (new_events (db c)
              (db (fst (tweet_grouper_main get_embeddings dbscan set_order model c)))) =
         map (members (fetch_unprocessed_incidents c) (dbscan e))
           (processed_labels (fetch_unprocessed_incidents c) (dbscan e) (set_order (dbscan e)))"
    unfolding m ne' using new_events_process_labels by blast
  show "\<forall>r \<in> set (new_events (db c)
              (db (fst (tweet_grouper_main get_embeddings dbscan set_order model c)))).
           number_of_reports r = int (length (source_incident_ids r))"
    unfolding m ne' using new_events_process_labels by blast
qed

lemma grouper_main_nothing_db:
  assumes "fetch_unprocessed_incidents c = [] \<or>
           get_embeddings (texts_for_embedding (fetch_unprocessed_incidents c)) = None"
  shows "db (fst (tweet_grouper_main get_embeddings dbscan set_order model c)) = db c"
  using assms by (simp add: grouper_main_nothing)

text \<open>
  C5.  In a clustering run, a report whose embedding is labelled noise (-1) is listed by
  no Event of the run and is still "unprocessed" afterwards, so that the next run
  fetches it again; and a report whose row the run changes is a member of a cluster with
  a label other than -1.  (Report ids are the primary key of the table.)
\<close>

theorem noise_reports_left_unprocessed:
  assumes d: "distinct (map ir_id (incident_reports (db c)))"
    and emb: "get_embeddings (texts_for_embedding (fetch_unprocessed_incidents c)) = Some e"
    and i: "i < length (fetch_unprocessed_incidents c)" "i < length (dbscan e)"
    and noise: "dbscan e ! i = - 1"
  shows "(\<forall>E \<in> set (new_events (db c)
                 (db (fst (tweet_grouper_main get_embeddings dbscan set_order model c)))).
            ir_id (fetch_unprocessed_incidents c ! i) \<notin> set (source_incident_ids E)) \<and>
         fetch_unprocessed_incidents c ! i \<in>
           set (fetch_unprocessed_incidents
                  (fst (tweet_grouper_main get_embeddings dbscan set_order model c))) \<and>
         (\<forall>r \<in> set (incident_reports (db c)).
            r \<in> set (incident_reports
                       (db (fst (tweet_grouper_main get_embeddings dbscan set_order model c)))) \<or>
            (\<exists>j. j < length (fetch_unprocessed_incidents c) \<and> j < length (dbscan e) \<and>
                 dbscan e ! j \<noteq> - 1 \<and> ir_id r = ir_id (fetch_unprocessed_incidents c ! j)))"
proof -
  let ?inc = "fetch_unprocessed_incidents c"
  let ?labels = "dbscan e"
  let ?c' = "fst (tweet_grouper_main get_embeddings dbscan set_order model c)"
  let ?P = "processed_labels ?inc ?labels (set_order ?labels)"
  let ?G = "\<Union>l \<in> set ?P. set (members ?inc ?labels l)"
  have ne: "?inc \<noteq> []" using i(1) by auto
  have di: "distinct (map ir_id ?inc)" using fetch_unprocessed_distinct [OF d] .
  have rows: "incident_reports (db ?c') = mark_grouped ?G (incident_reports (db c))"
    using ne emb by (rule grouper_main_rows(1))
  have evs: "map source_incident_ids (new_events (db c) (db ?c')) = map (members ?inc ?labels) ?P"
    using ne emb by (rule grouper_main_rows(2))
  have notG: "ir_id (?inc ! i) \<notin> ?G"
    using grouped_ids_not_noise [OF di i noise] by blast
  have a: "\<forall>E \<in> set (new_events (db c) (db ?c')).
             ir_id (?inc ! i) \<notin> set (source_incident_ids E)"
  proof
    fix E assume "E \<in> set (new_events (db c) (db ?c'))"
    then have "source_incident_ids E \<in> set (map (members ?inc ?labels) ?P)"
      using evs by (metis image_eqI set_map)
    then obtain l where "l \<in> set ?P" "source_incident_ids E = members ?inc ?labels l"
      by auto
    then show "ir_id (?inc ! i) \<notin> set (source_incident_ids E)"
      using notG by auto
  qed
  have mem: "?inc ! i \<in> set ?inc" using i(1) by simp
  then have row: "?inc ! i \<in> set (incident_reports (db c))"
    and st: "ir_status (?inc ! i) = ''unprocessed''"
    by (simp_all add: fetch_unprocessed_incidents_def)
  have "?inc ! i \<in> set (incident_reports (db ?c'))"
    unfolding rows using mark_grouped_unchanged [OF row notG] .
  then have b: "?inc ! i \<in> set (fetch_unprocessed_incidents ?c')"
    using st by (simp add: fetch_unprocessed_incidents_def)
  have c: "\<forall>r \<in> set (incident_reports (db c)).
            r \<in> set (incident_reports (db ?c')) \<or>
            (\<exists>j. j < length ?inc \<and> j < length ?labels \<and> ?labels ! j \<noteq> - 1 \<and>
                 ir_id r = ir_id (?inc ! j))"
  proof
    fix r assume r: "r \<in> set (incident_reports (db c))"
    show "r \<in> set (incident_reports (db ?c')) \<or>
            (\<exists>j. j < length ?inc \<and> j < length ?labels \<and> ?labels ! j \<noteq> - 1 \<and>
                 ir_id r = ir_id (?inc ! j))"
    proof (cases "ir_id r \<in> ?G")
      case False
      then show ?thesis unfolding rows using mark_grouped_unchanged [OF r] by blast
    next
      case True
      then obtain l where l: "l \<in> set ?P" "ir_id r \<in> set (members ?inc ?labels l)"
        by blast
      have pl: "l \<noteq> - 1" "index_incidents ?inc (cluster_indices ?labels l) \<noteq> None"
        using processed_labels_subset [OF l(1)] by simp_all
      obtain j where "j < length ?labels" "j < length ?inc" "?labels ! j = l"
          "ir_id r = ir_id (?inc ! j)"
        using members_index [OF l(2) pl(2)] by blast
      then show ?thesis using pl(1) by blast
    qed
  qed
  show ?thesis using a b c by blast
qed

lemma three_reports_fetch [simp]:
  "fetch_unprocessed_incidents three_reports_conn = three_reports"
  by (simp add: fetch_unprocessed_incidents_def three_reports_conn_def fresh_conn_def
        empty_store_def three_reports_def)

lemma three_reports_rows [simp]: "incident_reports (db three_reports_conn) = three_reports"
  by (simp add: three_reports_conn_def fresh_conn_def empty_store_def)

lemma three_reports_ids [simp]: "map ir_id three_reports = [1, 2, 3]"
  by (simp add: three_reports_def)

lemma three_reports_length [simp]: "length three_reports = 3"
  by (simp add: three_reports_def)

theorem noise_reports_left_unprocessed_witness:
  "distinct (map ir_id (incident_reports (db three_reports_conn))) \<and>
   (2::nat) < length (fetch_unprocessed_incidents three_reports_conn) \<and>
   [0, 0, - 1 :: int] ! 2 = - 1 \<and>
   fetch_unprocessed_incidents three_reports_conn ! 2 \<in>
     set (fetch_unprocessed_incidents
            (fst (tweet_grouper_main (\<lambda>_. Some ()) (\<lambda>_. [0, 0, - 1]) remdups
                    (\<lambda>_. Unparseable) three_reports_conn)))"
proof -
  have d: "distinct (map ir_id (incident_reports (db three_reports_conn)))" by simp
  have emb: "(\<lambda>_. Some ()) (texts_for_embedding (fetch_unprocessed_incidents three_reports_conn))
               = Some ()" by simp
  have i1: "(2::nat) < length (fetch_unprocessed_incidents three_reports_conn)" by simp
  have i2: "(2::nat) < length ((\<lambda>_. [0, 0, - 1 :: int]) ())" by simp
  have n: "(\<lambda>_. [0, 0, - 1 :: int]) () ! 2 = - 1" by simp
  show ?thesis
    using noise_reports_left_unprocessed [of three_reports_conn "\<lambda>_. Some ()" "()" 2
        "\<lambda>_. [0, 0, - 1]" remdups "\<lambda>_. Unparseable", OF d emb i1 i2 n] d i1
    by simp
qed


lemma members_distinct:
  assumes d: "distinct (map ir_id incidents)"
    and idx: "index_incidents incidents (cluster_indices labels l) \<noteq> None"
  shows "distinct (members incidents labels l)"
proof -
  have r: "\<forall>i \<in> set (cluster_indices labels l). i < length incidents"
    using idx by (auto simp: index_incidents_def split: if_splits)
  have "inj_on (\<lambda>i. ir_id (incidents ! i)) (set (cluster_indices labels l))"
    using r distinct_ids_nth [OF d] by (auto simp: inj_on_def)
  moreover have "distinct (cluster_indices labels l)"
    by (simp add: cluster_indices_def)
  ultimately show ?thesis by (simp add: members_def distinct_map)
qed



lemma three_reports_run_unfold:
  "three_reports_run =
     update_incident_status
       (insert_final_event_report (setup_database_schema three_reports_conn)
          ''Could not generate summary.'' ''Error'' [1, 2])
       [1, 2]"
  by (simp add: three_reports_run_def tweet_grouper_main_def Let_def index_incidents_def
        cluster_indices_def summarize_cluster_def three_reports_def)


lemma three_reports_run_commits:
  "map (\<lambda>s. (map source_incident_ids (final_report s), map ir_status (incident_reports s)))
     (commits three_reports_run) =
     [([], [''unprocessed'', ''unprocessed'', ''unprocessed'']),
      ([[1, 2]], [''unprocessed'', ''unprocessed'', ''unprocessed'']),
      ([[1, 2]], [''grouped'', ''grouped'', ''unprocessed''])]"
  by (simp add: three_reports_run_unfold sql_update_incident_status_def
        sql_insert_final_report_def three_reports_conn_def fresh_conn_def empty_store_def
        setup_database_schema_def three_reports_def)












section \<open>Extractor stage: what a run writes\<close>

lemma db_insert_incident_report [simp]:
  "db (insert_incident_report c rd) = sql_insert_incident_report rd (db c)"
  by (simp add: insert_incident_report_def)

lemma tweets_insert_incident_report [simp]:
  "tweets (sql_insert_incident_report rd s) = tweets s"
  by (simp add: sql_insert_incident_report_def)

lemma process_tweets_skip:
  assumes "\<not> writes_row model t"
    and "\<forall>j. model (tw_text t) = Parsed j \<longrightarrow> \<not> truthy j"
  shows "process_tweets model (t # rest) c = process_tweets model rest c"
  using assms
  by (auto simp: extract_incident_details_def split: llm_outcome.splits json.splits)

lemma process_tweets_failed:
  assumes "model (tw_text t) = CallFailed \<or> model (tw_text t) = Unparseable"
  shows "process_tweets model (t # rest) c = process_tweets model rest c"
  using assms by (auto simp: extract_incident_details_def)

lemma process_tweets_object:
  assumes "model (tw_text t) = Parsed (JObj kv)" and "kv \<noteq> []"
  shows "process_tweets model (t # rest) c =
         process_tweets model rest
           (insert_incident_report c (build_report (tw_id t) (tw_text t) kv))"
  using assms by (simp add: extract_incident_details_def)

lemma process_tweets_cases:
  "(process_tweets model (t # rest) c = process_tweets model rest c \<and> \<not> writes_row model t) \<or>
   (process_tweets model (t # rest) c = (c, Aborted AttributeError) \<and> \<not> writes_row model t) \<or>
   (\<exists>kv. model (tw_text t) = Parsed (JObj kv) \<and> kv \<noteq> [] \<and>
      process_tweets model (t # rest) c =
        process_tweets model rest
          (insert_incident_report c (build_report (tw_id t) (tw_text t) kv)))"
proof (cases "model (tw_text t)")
  case CallFailed
  then show ?thesis by (simp add: extract_incident_details_def writes_row_def)
next
  case Unparseable
  then show ?thesis by (simp add: extract_incident_details_def writes_row_def)
next
  case (Parsed j)
  then show ?thesis
    by (cases j) (auto simp: extract_incident_details_def writes_row_def)
qed

lemma process_tweets_tweets [simp]:
  "tweets (db (fst (process_tweets model ts c))) = tweets (db c)"
proof (induction ts arbitrary: c)
  case Nil
  then show ?case by simp
next
  case (Cons t ts)
  show ?case
    using process_tweets_cases [of model t ts c] by (auto simp: Cons.IH)
qed






lemma fetch_unprocessed_tweets_setup [simp]:
  "fetch_unprocessed_tweets (setup_database_schema c) = fetch_unprocessed_tweets c"
  by (simp add: fetch_unprocessed_tweets_def)







lemma two_tweets_fetch [simp]:
  "fetch_unprocessed_tweets two_tweets_conn = [tweet_one, tweet_two]"
  by (simp add: fetch_unprocessed_tweets_def two_tweets_conn_def fresh_conn_def empty_store_def)

lemma two_tweets_tweets [simp]: "tweets (db two_tweets_conn) = [tweet_one, tweet_two]"
  by (simp add: two_tweets_conn_def fresh_conn_def empty_store_def)

lemma two_tweets_rows [simp]: "incident_reports (db two_tweets_conn) = []"
  by (simp add: two_tweets_conn_def fresh_conn_def empty_store_def)

lemma location_only_answers [simp]:
  "location_only (tw_text tweet_one) = Parsed (JObj [(''location'', ''Gandhi Nagar'')])"
  "location_only (tw_text tweet_two) = Unparseable"
  by (simp_all add: location_only_def tweet_one_def tweet_two_def)

lemma two_tweets_ids [simp]: "tw_id tweet_one = 1" "tw_id tweet_two = 2"
  by (simp_all add: tweet_one_def tweet_two_def)




section \<open>Classifier stages: what a run writes\<close>

lemma mark_status_empty [simp]: "mark_status {} st ts = ts"
  by (simp add: mark_status_def)


lemma db_insert_actionable [simp]:
  "db (insert_actionable_tweet c tx tid) = sql_insert_actionable tx tid (db c)"
  by (simp add: insert_actionable_tweet_def)

lemma db_update_tweet_status [simp]:
  "db (update_tweet_status c tid st) = sql_update_tweet_status tid st (db c)"
  by (simp add: update_tweet_status_def)

lemma tweets_insert_actionable [simp]: "tweets (sql_insert_actionable tx tid s) = tweets s"
  by (simp add: sql_insert_actionable_def)

lemma tweets_update_tweet_status [simp]:
  "tweets (sql_update_tweet_status tid st s) = mark_status {tid} st (tweets s)"
  by (simp add: sql_update_tweet_status_def mark_status_def)




lemma fetch_unclassified_setup [simp]:
  "fetch_unclassified_tweets (setup_database_schema c) = fetch_unclassified_tweets c"
  by (simp add: fetch_unclassified_tweets_def)












section \<open>Running a stage twice\<close>





lemma db_insert_geocoded [simp]:
  "db (insert_geocoded_report c report lat lon) = sql_insert_geocoded report lat lon (db c)"
  by (simp add: insert_geocoded_report_def)

lemma final_report_insert_geocoded [simp]:
  "final_report (sql_insert_geocoded report lat lon s) = final_report s"
  by (simp add: sql_insert_geocoded_def)


text \<open>One pass of the geocoding loop, by what the request does.\<close>

lemma geocode_reports_step:
  "(\<forall>x rest. geocode_reports key geocoder (report # rest) x =
        geocode_reports key geocoder rest x) \<or>
   (\<exists>e. \<forall>x rest. geocode_reports key geocoder (report # rest) x = (x, Aborted e)) \<or>
   (\<exists>lat lon. \<forall>x rest. geocode_reports key geocoder (report # rest) x =
        geocode_reports key geocoder rest (insert_geocoded_report x report lat lon))"
proof (cases "get_coordinates key geocoder (event_location report @ '', Vellore'')")
  case (Inl e)
  then show ?thesis by (simp add: Let_def)
next
  case (Inr r)
  then show ?thesis by (cases r) (auto simp: Let_def)
qed

lemma geocode_reports_final_report [simp]:
  "final_report (db (fst (geocode_reports key geocoder reports c))) = final_report (db c)"
proof (induction reports arbitrary: c)
  case Nil
  then show ?case by simp
next
  case (Cons report reports)
  show ?case
    using geocode_reports_step [of key geocoder report] Cons.IH
    by (auto simp del: geocode_reports.simps)
qed



lemma fetch_unprocessed_reports_setup [simp]:
  "fetch_unprocessed_reports (setup_database_schema c) = fetch_unprocessed_reports c"
  by (simp add: fetch_unprocessed_reports_def)






lemma pipeline_conn_tables [simp]:
  "tweets (db pipeline_conn) = [tweet_one, tweet_two]"
  "map fr_id (final_report (db pipeline_conn)) = [1]"
  by (simp_all add: pipeline_conn_def fresh_conn_def empty_store_def)



end
